theory Spec2Isabelle
  imports Complex_Main
begin

section \<open>Scalar ARMA processes (quantecon/arma.py)\<close>

text \<open>
  The module defines one class, \<open>ARMA\<close>, holding the raw parameters \<open>_phi\<close>, \<open>_theta\<close>
  and \<open>sigma\<close> and the two derived coefficient arrays \<open>ar_poly\<close> and \<open>ma_poly\<close>.
  Numbers are modelled in exact arithmetic: the normalisation is polymorphic in the number type
  (it only needs \<open>0\<close>, \<open>1\<close> and negation), the filters and the spectral
  quantities work over the real and complex numbers. Rounding is outside the model; a
  floating-point value that is an infinity or nan is modelled as a missing number.
\<close>

subsection \<open>Python and NumPy values\<close>

text \<open>
  A parameter is a Python scalar or a sequence of numbers. \<open>np.asarray\<close> turns a scalar into a
  0-dimensional array and a sequence into a 1-dimensional one.
\<close>

datatype 'a pyval = Scalar 'a | Seq "'a list"

datatype 'a ndarray = Arr0 'a | Arr1 "'a list"

datatype error = ValueError | IndexError

fun asarray :: "'a pyval \<Rightarrow> 'a ndarray" where
  "asarray (Scalar x) = Arr0 x"
| "asarray (Seq xs) = Arr1 xs"

text \<open>Negation of an array, element by element.\<close>

fun neg_ndarray :: "'a::uminus ndarray \<Rightarrow> 'a ndarray" where
  "neg_ndarray (Arr0 x) = Arr0 (- x)"
| "neg_ndarray (Arr1 xs) = Arr1 (map uminus xs)"

text \<open>\<open>arr.ravel()\<close>: what \<open>np.insert\<close> does to an array that is not 1-dimensional when no axis is given.\<close>

fun ravel :: "'a ndarray \<Rightarrow> 'a list" where
  "ravel (Arr0 x) = [x]"
| "ravel (Arr1 xs) = xs"

text \<open>\<open>np.insert(arr, 0, v)\<close>.\<close>

definition np_insert0 :: "'a ndarray \<Rightarrow> 'a \<Rightarrow> 'a list" where
  "np_insert0 arr v = v # ravel arr"

definition np_zeros :: "nat \<Rightarrow> 'a::zero list" where
  "np_zeros n = replicate n 0"

definition np_hstack :: "'a list \<Rightarrow> 'a list \<Rightarrow> 'a list" where
  "np_hstack xs ys = xs @ ys"

subsection \<open>The class and its normalisation\<close>

text \<open>The fields \<open>phi\<close> and \<open>theta\<close> are the attributes \<open>_phi\<close> and \<open>_theta\<close>, read through the properties of the same names.\<close>

record 'a arma =
  phi :: "'a pyval"
  theta :: "'a pyval"
  sigma :: 'a
  ar_poly :: "'a list"
  ma_poly :: "'a list"

definition set_params :: "'a::{zero,one,uminus} arma \<Rightarrow> 'a arma" where
  "set_params self =
     (let ma_poly1 = np_insert0 (asarray (theta self)) 1;
          ar_poly0 = (case phi self of
                        Scalar x \<Rightarrow> Arr0 (- x)
                      | Seq xs \<Rightarrow> neg_ndarray (asarray (Seq xs)));
          ar_poly1 = np_insert0 ar_poly0 1;
          ar_poly2 = (if length ar_poly1 < length ma_poly1
                      then np_hstack ar_poly1 (np_zeros (length ma_poly1 - length ar_poly1))
                      else ar_poly1)
      in self\<lparr>ar_poly := ar_poly2, ma_poly := ma_poly1\<rparr>)"

text \<open>\<open>__init__\<close>: the derived arrays do not exist before \<open>set_params\<close> runs.\<close>

definition ARMA :: "'a::{zero,one,uminus} pyval \<Rightarrow> 'a pyval \<Rightarrow> 'a \<Rightarrow> 'a arma" where
  "ARMA p t s = set_params \<lparr>phi = p, theta = t, sigma = s, ar_poly = [], ma_poly = []\<rparr>"

text \<open>The defaults of the constructor: \<open>theta=0\<close>, \<open>sigma=1\<close>.\<close>

definition ARMA_default :: "'a::{zero,one,uminus} pyval \<Rightarrow> 'a arma" where
  "ARMA_default p = ARMA p (Scalar 0) 1"

definition set_phi :: "'a::{zero,one,uminus} arma \<Rightarrow> 'a pyval \<Rightarrow> 'a arma" where
  "set_phi self new_value = set_params (self\<lparr>phi := new_value\<rparr>)"

definition set_theta :: "'a::{zero,one,uminus} arma \<Rightarrow> 'a pyval \<Rightarrow> 'a arma" where
  "set_theta self new_value = set_params (self\<lparr>theta := new_value\<rparr>)"

text \<open>\<open>sigma\<close> is a plain attribute: assigning it recomputes nothing.\<close>

definition set_sigma :: "'a arma \<Rightarrow> 'a \<Rightarrow> 'a arma" where
  "set_sigma self new_value = self\<lparr>sigma := new_value\<rparr>"

subsection \<open>The normalisation in the words of the specification\<close>

text \<open>A scalar is promoted to a sequence of length one.\<close>

fun as_sequence :: "'a pyval \<Rightarrow> 'a list" where
  "as_sequence (Scalar x) = [x]"
| "as_sequence (Seq xs) = xs"

definition spec_ma_poly :: "'a::one pyval \<Rightarrow> 'a list" where
  "spec_ma_poly t = [1] @ as_sequence t"

definition spec_ar_poly :: "'a::{zero,one,uminus} pyval \<Rightarrow> 'a pyval \<Rightarrow> 'a list" where
  "spec_ar_poly p t =
     (let ar = [1] @ map uminus (as_sequence p)
      in ar @ replicate (length (spec_ma_poly t) - length ar) 0)"

section \<open>The library functions the class calls\<close>

text \<open>
  The four queries delegate to \<open>scipy.signal\<close> (\<open>freqz\<close>, \<open>dimpulse\<close>, \<open>dlsim\<close>) and to
  \<open>numpy\<close> (\<open>fft.ifft\<close>, \<open>random.randn\<close>). These are not part of the module; they are
  modelled here by what the libraries compute, in exact arithmetic, together with the
  errors they raise on the arguments this module can pass.
\<close>

subsection \<open>Floating-point values that are not numbers\<close>

text \<open>
  A division by zero does not raise in NumPy: the quotient is an infinity or nan, and every
  later operation on it again gives a value that is not a finite number. Where that can
  happen a value has the type \<open>'a option\<close>: \<open>Some x\<close> is the number \<open>x\<close> and \<open>None\<close>
  stands for nan or an infinity.
\<close>

definition np_divide :: "'a::field \<Rightarrow> 'a \<Rightarrow> 'a option" where
  "np_divide a b = (if b = 0 then None else Some (a / b))"

fun fadd :: "'a::plus option \<Rightarrow> 'a option \<Rightarrow> 'a option" where
  "fadd (Some x) (Some y) = Some (x + y)"
| "fadd a b = None"

fun fmul :: "'a::times option \<Rightarrow> 'a option \<Rightarrow> 'a option" where
  "fmul (Some x) (Some y) = Some (x * y)"
| "fmul a b = None"

text \<open>\<open>np.dot\<close> of two vectors.\<close>

definition fdot :: "'a::semiring_0 option list \<Rightarrow> 'a option list \<Rightarrow> 'a option" where
  "fdot xs ys = foldr fadd (map2 fmul xs ys) (Some 0)"

subsection \<open>Frequency response and inverse Fourier transform\<close>

text \<open>\<open>np.polyval(p, x)\<close>, Horner's rule with the highest coefficient first.\<close>

definition polyval :: "'a::comm_semiring_0 list \<Rightarrow> 'a \<Rightarrow> 'a" where
  "polyval p x = foldl (\<lambda>y pv. y * x + pv) 0 p"

text \<open>The argument \<open>worN\<close> of \<open>freqz\<close>: a number of points or an array of frequencies.\<close>

datatype worN = Count int | Freqs "real list"

text \<open>\<open>np.linspace(0, stop, N, endpoint=False)\<close>.\<close>

definition linspace_open :: "real \<Rightarrow> nat \<Rightarrow> real list" where
  "linspace_open stop N = map (\<lambda>k. real k * (stop / real N)) [0..<N]"

text \<open>\<open>np.linspace(0, stop, N)\<close>, the end point included.\<close>

definition linspace_closed :: "real \<Rightarrow> nat \<Rightarrow> real list" where
  "linspace_closed stop N = map (\<lambda>k. real k * (stop / real (N - 1))) [0..<N]"

text \<open>
  \<open>freqz\<close> evaluates the numerator \<open>B\<close> and the denominator \<open>A\<close>, polynomials in \<open>1/z\<close>, at
  \<open>z = exp(i w)\<close> and divides; \<open>cis (- w)\<close> is \<open>exp(-1j * w)\<close>. Where \<open>A\<close> vanishes the
  quotient is not a number.
\<close>

definition freqz_at :: "real list \<Rightarrow> real list \<Rightarrow> real \<Rightarrow> complex option" where
  "freqz_at b a w =
     (let zm1 = cis (- w)
      in np_divide (polyval (rev (map complex_of_real b)) zm1)
                   (polyval (rev (map complex_of_real a)) zm1))"

definition freqz :: "real list \<Rightarrow> real list \<Rightarrow> worN \<Rightarrow> bool
    \<Rightarrow> error + (real list \<times> complex option list)" where
  "freqz b a worN whole =
     (let lastpoint = (if whole then 2 * pi else pi)
      in case worN of
           Count N \<Rightarrow>
             if N < 0 then Inl ValueError
             else (let w = linspace_open lastpoint (nat N) in Inr (w, map (freqz_at b a) w))
         | Freqs w \<Rightarrow> Inr (w, map (freqz_at b a) w))"



text \<open>
  \<open>np.fft.ifft\<close>: the inverse discrete Fourier transform; it rejects an empty array. Every
  output is a sum over all the inputs, so one input that is not a number makes all of them so.
\<close>

definition ifft :: "complex option list \<Rightarrow> error + complex option list" where
  "ifft a =
     (let n = length a
      in if n = 0 then Inl ValueError
         else (case those a of
                 None \<Rightarrow> Inr (replicate n None)
               | Some xs \<Rightarrow>
                   Inr (map (\<lambda>m. Some ((\<Sum>k<n. xs ! k * cis (2 * pi * real k * real m / real n))
                                          / of_nat n))
                          [0..<n])))"

text \<open>The slice \<open>xs[:n]\<close>: a negative \<open>n\<close> counts from the end.\<close>

definition py_slice_upto :: "'a list \<Rightarrow> int \<Rightarrow> 'a list" where
  "py_slice_upto xs n =
     (if n < 0 then take (nat (int (length xs) + n)) xs else take (nat n) xs)"

subsection \<open>Discrete-time linear systems\<close>

text \<open>
  \<open>dimpulse\<close> and \<open>dlsim\<close> turn the transfer function \<open>(num, den, dt)\<close> into a state-space
  system with \<open>tf2ss\<close> (controller canonical form) and iterate
  \<open>x[i+1] = A x[i] + B u[i]\<close>, \<open>y[i] = C x[i] + D u[i]\<close> from the zero state. The system has
  one input and one output, so \<open>B\<close> is a column, \<open>C\<close> a row and \<open>D\<close> a number.
\<close>

record 'a statespace =
  ss_A :: "'a list list"
  ss_B :: "'a list"
  ss_C :: "'a list"
  ss_D :: 'a

text \<open>
  \<open>normalize\<close>: reject a zero denominator, drop its leading zeros, divide both polynomials by
  its leading coefficient and drop the leading zeros of the numerator, keeping one
  coefficient (the library tests them against a tolerance of \<open>1e-14\<close>; here against zero).
\<close>

definition normalize :: "'a::field list \<Rightarrow> 'a list \<Rightarrow> error + ('a list \<times> 'a list)" where
  "normalize b a =
     (if list_all (\<lambda>c. c = 0) a then Inl ValueError
      else (let den = dropWhile (\<lambda>c. c = 0) a;
                num = map (\<lambda>c. c / hd den) b;
                den1 = map (\<lambda>c. c / hd den) den;
                leading_zeros = length (takeWhile (\<lambda>c. c = 0) num);
                leading_zeros1 = (if 0 < leading_zeros \<and> leading_zeros = length num
                                  then leading_zeros - 1 else leading_zeros)
            in Inr (drop leading_zeros1 num, den1)))"

text \<open>\<open>np.eye(n, m)\<close>.\<close>

definition eye :: "nat \<Rightarrow> nat \<Rightarrow> 'a::{zero,one} list list" where
  "eye n m = map (\<lambda>i. map (\<lambda>j. if i = j then 1 else 0) [0..<m]) [0..<n]"

text \<open>
  \<open>tf2ss\<close>: a numerator longer than the denominator is an improper transfer function and
  raises; a shorter one is padded with zeros on the left.
\<close>

definition tf2ss :: "'a::field list \<Rightarrow> 'a list \<Rightarrow> error + 'a statespace" where
  "tf2ss b a =
     (case normalize b a of
        Inl e \<Rightarrow> Inl e
      | Inr (num, den) \<Rightarrow>
          (let M = length num; K = length den
           in if K < M then Inl ValueError
              else (let num1 = replicate (K - M) 0 @ num; D = hd num1
                    in if K = 1
                       then Inr \<lparr>ss_A = [[0]], ss_B = [0], ss_C = [0], ss_D = D\<rparr>
                       else Inr \<lparr>ss_A = map uminus (tl den) # eye (K - 2) (K - 1),
                                 ss_B = map hd (eye (K - 1) 1),
                                 ss_C = map2 (\<lambda>n d. n - hd num1 * d) (tl num1) (tl den),
                                 ss_D = D\<rparr>)))"

text \<open>
  The linear interpolation \<open>interp1d(x, y, bounds_error=True)(x_new)\<close> that \<open>dlsim\<close> applies
  to its input when it is given a time vector. For each new point the library takes the
  knots \<open>lo = i - 1\<close> and \<open>hi = i\<close> with \<open>i = searchsorted(x, v)\<close> clipped to
  \<open>[1, len(x) - 1]\<close>, and returns \<open>slope * (v - x[lo]) + y[lo]\<close> with
  \<open>slope = (y[hi] - y[lo]) / (x[hi] - x[lo])\<close>. With a single knot the clipped index is 0,
  \<open>lo = -1\<close> is that same knot, and the slope is \<open>0 / 0\<close>. The knots \<open>x\<close> are sorted and not
  empty wherever \<open>dlsim\<close> calls it.
\<close>

definition searchsorted :: "real list \<Rightarrow> real \<Rightarrow> nat" where
  "searchsorted x v = length (takeWhile (\<lambda>xi. xi < v) x)"

definition np_clip :: "int \<Rightarrow> int \<Rightarrow> int \<Rightarrow> int" where
  "np_clip a a_min a_max = min (max a a_min) a_max"

text \<open>\<open>xs[i]\<close> for an index in range; a negative index counts from the end.\<close>

definition py_nth :: "'a list \<Rightarrow> int \<Rightarrow> 'a" where
  "py_nth xs i = xs ! nat (if i < 0 then int (length xs) + i else i)"

definition call_linear :: "real list \<Rightarrow> real list \<Rightarrow> real \<Rightarrow> real option" where
  "call_linear x y v =
     (let i = np_clip (int (searchsorted x v)) 1 (int (length x) - 1);
          lo = i - 1; hi = i;
          x_lo = py_nth x lo; x_hi = py_nth x hi;
          y_lo = py_nth y lo; y_hi = py_nth y hi;
          slope = np_divide (y_hi - y_lo) (x_hi - x_lo)
      in fadd (fmul slope (Some (v - x_lo))) (Some y_lo))"

definition interp1d :: "real list \<Rightarrow> real list \<Rightarrow> real list \<Rightarrow> error + real option list" where
  "interp1d x y x_new =
     (if list_ex (\<lambda>v. v < hd x \<or> last x < v) x_new then Inl ValueError
      else Inr (map (call_linear x y) x_new))"

text \<open>The output samples of \<open>dlsim\<close> from state \<open>x\<close> on the inputs still to come.\<close>

fun dlsim_out :: "'a::semiring_0 statespace \<Rightarrow> 'a option list \<Rightarrow> 'a option list
    \<Rightarrow> 'a option list" where
  "dlsim_out ss x [] = []"
| "dlsim_out ss x (u # us) =
     fadd (fdot (map Some (ss_C ss)) x) (fmul (Some (ss_D ss)) u)
       # dlsim_out ss
           (map2 fadd (map (\<lambda>row. fdot (map Some row) x) (ss_A ss))
                      (map (\<lambda>b. fmul (Some b) u) (ss_B ss)))
           us"

text \<open>
  \<open>dlsim(system, u, t=t)\<close> for a system with \<open>dt = 1\<close>. Without a time vector there is one
  output sample for each input sample. With a time vector there are
  \<open>floor(t[-1] / dt) + 1\<close> samples at the instants \<open>tout = linspace(0, t[-1], samples)\<close>, and
  the input is interpolated over \<open>t\<close> at these instants. With no sample the library writes
  row 0 of arrays of length 0, which raises \<open>IndexError\<close>.
\<close>

definition dlsim :: "real statespace \<Rightarrow> real list \<Rightarrow> real list option
    \<Rightarrow> error + real option list" where
  "dlsim ss u t =
     (case (case t of
              None \<Rightarrow> Inr (int (length u), real_of_int (int (length u) - 1) * 1)
            | Some ts \<Rightarrow> if ts = [] then Inl IndexError
                         else Inr (\<lfloor>last ts / 1\<rfloor> + 1, last ts)) of
        Inl e \<Rightarrow> Inl e
      | Inr (out_samples, stoptime) \<Rightarrow>
          if out_samples < 0 then Inl ValueError
          else if out_samples = 0 then Inl IndexError
          else (case (case t of
                        None \<Rightarrow> Inr (map Some u)
                      | Some ts \<Rightarrow> interp1d ts u (linspace_closed stoptime (nat out_samples))) of
                  Inl e \<Rightarrow> Inl e
                | Inr u_dt \<Rightarrow>
                    Inr (dlsim_out ss (replicate (length (ss_A ss)) (Some 0)) u_dt)))"

text \<open>
  \<open>dimpulse(system, n=n)\<close>: the system is converted first; the time vector is
  \<open>t = linspace(0, n * dt, n, endpoint=False)\<close>, which a negative \<open>n\<close> makes \<open>np.linspace\<close>
  refuse; the input is one zero for each instant with \<open>u[0] = 1.0\<close>, an assignment that
  raises \<open>IndexError\<close> when \<open>n = 0\<close>; the response is \<open>dlsim(system, u, t=t)\<close>.
\<close>

definition dimpulse :: "real list \<Rightarrow> real list \<Rightarrow> int \<Rightarrow> error + real option list" where
  "dimpulse num den n =
     (case tf2ss num den of
        Inl e \<Rightarrow> Inl e
      | Inr ss \<Rightarrow>
          if n < 0 then Inl ValueError
          else (let t = linspace_open (real_of_int n * 1) (nat n);
                    u = np_zeros (length t)
                in if length u \<le> 0 then Inl IndexError else dlsim ss (u[0 := 1]) (Some t)))"

subsection \<open>The global random state\<close>

text \<open>
  \<open>np.random.randn\<close> takes its variates from the generator that the \<open>numpy.random\<close> module
  keeps for the whole process. That generator belongs to the state of the process, not to
  the arguments of a call: a Python function is a computation that reads and changes the
  global state. The generator is modelled by the sequence of standard normal variates it
  will still produce; drawing \<open>n\<close> of them advances it by \<open>n\<close>. A negative count is refused
  and leaves the state as it is.
\<close>

type_synonym rng_state = "nat \<Rightarrow> real"

record globals =
  np_random :: rng_state

type_synonym 'a py = "globals \<Rightarrow> 'a \<times> globals"

definition randn :: "int \<Rightarrow> (error + real list) py" where
  "randn n G =
     (if n < 0 then (Inl ValueError, G)
      else (Inr (map (np_random G) [0..<nat n]),
            G\<lparr>np_random := \<lambda>i. np_random G (nat n + i)\<rparr>))"

section \<open>The queries of the class\<close>

definition impulse_response :: "real arma \<Rightarrow> int \<Rightarrow> error + real option list" where
  "impulse_response self impulse_length = dimpulse (ma_poly self) (ar_poly self) impulse_length"

text \<open>The result keeps the complex type of \<open>h * conj(h)\<close>; nothing takes its real part.\<close>

definition spectral_density :: "real arma \<Rightarrow> bool \<Rightarrow> worN
    \<Rightarrow> error + (real list \<times> complex option list)" where
  "spectral_density self two_pi res =
     (case freqz (ma_poly self) (ar_poly self) res two_pi of
        Inl e \<Rightarrow> Inl e
      | Inr (w, h) \<Rightarrow>
          Inr (w, map (\<lambda>hk. fmul (fmul hk (map_option cnj hk))
                               (Some (complex_of_real ((sigma self)\<^sup>2)))) h))"

text \<open>\<open>spectral_density()\<close> is called with its defaults, \<open>two_pi=True\<close> and \<open>res=1200\<close>.\<close>

definition autocovariance :: "real arma \<Rightarrow> int \<Rightarrow> error + real option list" where
  "autocovariance self num_autocov =
     (case spectral_density self True (Count 1200) of
        Inl e \<Rightarrow> Inl e
      | Inr (w, spect) \<Rightarrow>
          (case ifft spect of
             Inl e \<Rightarrow> Inl e
           | Inr acov \<Rightarrow> Inr (py_slice_upto (map (map_option Re) acov) num_autocov)))"

text \<open>
  \<open>simulation(self, ts_length)\<close> has no argument for a random source: its arguments are the
  object and the length, and the variates come from the global state.
\<close>

definition simulation :: "real arma \<Rightarrow> int \<Rightarrow> (error + real option list) py" where
  "simulation self ts_length G =
     (case randn ts_length G of
        (Inl e, G1) \<Rightarrow> (Inl e, G1)
      | (Inr z, G1) \<Rightarrow>
          (let u = map (\<lambda>x. x * sigma self) z
           in (case tf2ss (ma_poly self) (ar_poly self) of
                 Inl e \<Rightarrow> Inl e
               | Inr ss \<Rightarrow> dlsim ss u None, G1)))"

section \<open>Properties of the normalisation\<close>

lemma ravel_asarray: "ravel (asarray v) = as_sequence v"
  by (cases v) simp_all

lemma ravel_neg:
  "ravel (case v of Scalar x \<Rightarrow> Arr0 (- x) | Seq xs \<Rightarrow> neg_ndarray (asarray (Seq xs)))
     = map uminus (as_sequence v)"
  by (cases v) simp_all

lemma ma_poly_set_params: "ma_poly (set_params m) = 1 # as_sequence (theta m)"
  by (simp add: set_params_def Let_def np_insert0_def ravel_asarray)

lemma ar_poly_set_params:
  "ar_poly (set_params m) =
     (1 # map uminus (as_sequence (phi m)))
       @ replicate (length (as_sequence (theta m)) - length (as_sequence (phi m))) 0"
  by (simp add: set_params_def Let_def np_insert0_def np_hstack_def np_zeros_def
      ravel_asarray ravel_neg)

lemma set_params_fields:
  "phi (set_params m) = phi m" "theta (set_params m) = theta m" "sigma (set_params m) = sigma m"
  by (simp_all add: set_params_def Let_def)

lemma ARMA_fields: "phi (ARMA p t s) = p" "theta (ARMA p t s) = t" "sigma (ARMA p t s) = s"
  by (simp_all add: ARMA_def set_params_fields)

lemma ma_poly_ARMA: "ma_poly (ARMA p t s) = 1 # as_sequence t"
  by (simp add: ARMA_def ma_poly_set_params)

lemma ar_poly_ARMA:
  "ar_poly (ARMA p t s) =
     (1 # map uminus (as_sequence p)) @ replicate (length (as_sequence t) - length (as_sequence p)) 0"
  by (simp add: ARMA_def ar_poly_set_params)

text \<open>Every state the public interface can reach is the state of a fresh construction.\<close>

lemma set_phi_ARMA: "set_phi (ARMA p t s) p' = ARMA p' t s"
  by (simp add: set_phi_def ARMA_def set_params_def Let_def)

lemma set_theta_ARMA: "set_theta (ARMA p t s) t' = ARMA p t' s"
  by (simp add: set_theta_def ARMA_def set_params_def Let_def)

lemma set_sigma_ARMA: "set_sigma (ARMA p t s) s' = ARMA p t s'"
  by (simp add: set_sigma_def ARMA_def set_params_def Let_def)

text \<open>
  C1. On construction and on every assignment to \<open>phi\<close> or \<open>theta\<close>, \<open>set_params\<close> leaves
  \<open>ma_poly\<close> equal to \<open>[1]\<close> followed by \<open>theta\<close> and \<open>ar_poly\<close> equal to \<open>[1]\<close> followed by the
  negated \<open>phi\<close> (a scalar counting as a sequence of length one), padded on the right with
  zeros up to the length of \<open>ma_poly\<close> when it is shorter.
\<close>

theorem set_params_normal_form:
  "ma_poly (set_params m) = spec_ma_poly (theta m)
   \<and> ar_poly (set_params m) = spec_ar_poly (phi m) (theta m)
   \<and> ma_poly (ARMA p t s) = spec_ma_poly t
   \<and> ar_poly (ARMA p t s) = spec_ar_poly p t
   \<and> ma_poly (set_phi m p) = spec_ma_poly (theta m)
   \<and> ar_poly (set_phi m p) = spec_ar_poly p (theta m)
   \<and> ma_poly (set_theta m t) = spec_ma_poly t
   \<and> ar_poly (set_theta m t) = spec_ar_poly (phi m) t"
  by (simp add: spec_ma_poly_def spec_ar_poly_def ma_poly_set_params ar_poly_set_params
      ma_poly_ARMA ar_poly_ARMA set_phi_def set_theta_def)

text \<open>
  C5. After construction and after every assignment to \<open>phi\<close> or \<open>theta\<close>, \<open>ar_poly\<close> is at
  least as long as \<open>ma_poly\<close> and both start with the coefficient 1.
\<close>

theorem polys_invariant:
  "length (ma_poly (ARMA p t s)) \<le> length (ar_poly (ARMA p t s))
   \<and> ar_poly (ARMA p t s) ! 0 = 1 \<and> ma_poly (ARMA p t s) ! 0 = 1
   \<and> length (ma_poly (set_phi m p)) \<le> length (ar_poly (set_phi m p))
   \<and> ar_poly (set_phi m p) ! 0 = 1 \<and> ma_poly (set_phi m p) ! 0 = 1
   \<and> length (ma_poly (set_theta m t)) \<le> length (ar_poly (set_theta m t))
   \<and> ar_poly (set_theta m t) ! 0 = 1 \<and> ma_poly (set_theta m t) ! 0 = 1"
  by (auto simp: ma_poly_ARMA ar_poly_ARMA set_phi_def set_theta_def ma_poly_set_params
      ar_poly_set_params)

text \<open>
  C9. Assigning \<open>phi\<close> a new value and then its original value again gives back the original
  \<open>ar_poly\<close>, and indeed the original object: the arrays are a function of the parameters alone.
\<close>

theorem reset_phi_restores:
  "ar_poly (set_phi (set_phi (ARMA p t s) p') (phi (ARMA p t s))) = ar_poly (ARMA p t s)
   \<and> set_phi (set_phi (ARMA p t s) p') (phi (ARMA p t s)) = ARMA p t s"
  by (simp add: set_phi_ARMA ARMA_fields)

text \<open>
  C10. With a scalar \<open>theta\<close>, \<open>ma_poly\<close> is \<open>[1, theta]\<close>, of length 2; the default
  construction, a pure AR process, has \<open>ma_poly = [1, 0]\<close> and not \<open>[1]\<close>.
\<close>

theorem scalar_theta_ma_poly:
  "ma_poly (ARMA p (Scalar x) s) = [1, x]
   \<and> length (ma_poly (ARMA p (Scalar x) s)) = 2
   \<and> ma_poly (ARMA_default p) = [1, 0]
   \<and> ma_poly (ARMA_default p) \<noteq> [1]"
  by (simp add: ARMA_default_def ma_poly_ARMA)

section \<open>Properties of the impulse response\<close>

lemma ARMA_polys_shape:
  "\<exists>b a. ma_poly (ARMA p t s) = 1 # b \<and> ar_poly (ARMA p t s) = 1 # a \<and> length b \<le> length a"
  by (simp add: ma_poly_ARMA ar_poly_ARMA)

lemma normalize_monic: "normalize (1 # b) (1 # a) = Inr (1 # b, 1 # (a::'a::field list))"
  by (simp add: normalize_def Let_def)

lemma tf2ss_monic:
  "length b \<le> length a \<Longrightarrow> \<exists>ss. tf2ss (1 # b) (1 # (a::'a::field list)) = Inr ss"
  by (simp add: tf2ss_def normalize_monic Let_def)

text \<open>The conversion to a state-space system succeeds for every object.\<close>

lemma tf2ss_ARMA: "\<exists>ss. tf2ss (ma_poly (ARMA p t s)) (ar_poly (ARMA p t (s::'a::field))) = Inr ss"
  using ARMA_polys_shape[of p t s] tf2ss_monic by metis

text \<open>The system of an AR(1) process with a scalar \<open>theta = 0\<close>.\<close>

lemma tf2ss_ar1:
  "tf2ss [1, 0] [1, - (x::'a::field)] = Inr \<lparr>ss_A = [[x]], ss_B = [1], ss_C = [x], ss_D = 1\<rparr>"
  by (simp add: tf2ss_def normalize_def Let_def eye_def)

text \<open>
  The time vector of \<open>dimpulse\<close> is \<open>0, 1, ..., n - 1\<close>, and so are the instants at which
  \<open>dlsim\<close> samples. With two knots or more the interpolation gives back the input.
\<close>

lemma takeWhile_less_upt:
  assumes "k \<le> N"
  shows "takeWhile (\<lambda>i. i < k) [0..<N] = [0..<k]"
proof -
  have split: "[0..<N] = [0..<k] @ [k..<N]"
    using assms upt_add_eq_append[of 0 k "N - k"] by simp
  have rest: "takeWhile (\<lambda>i. i < k) [k..<N] = []"
    by (cases "k < N") (simp_all add: upt_conv_Cons)
  have "takeWhile (\<lambda>i. i < k) ([0..<k] @ [k..<N]) = [0..<k] @ takeWhile (\<lambda>i. i < k) [k..<N]"
    by (rule takeWhile_append2) simp
  then show ?thesis
    by (simp only: split[symmetric] rest append_Nil2)
qed

lemma searchsorted_knots: "k \<le> N \<Longrightarrow> searchsorted (map real [0..<N]) (real k) = k"
proof -
  assume "k \<le> N"
  have "takeWhile (\<lambda>xi. xi < real k) (map real [0..<N]) = map real (takeWhile (\<lambda>i. i < k) [0..<N])"
    by (simp add: takeWhile_map comp_def)
  then show ?thesis
    using \<open>k \<le> N\<close> by (simp add: searchsorted_def takeWhile_less_upt)
qed

lemma linspace_open_knots:
  "0 < n \<Longrightarrow> linspace_open (real_of_int n * 1) (nat n) = map real [0..<nat n]"
  by (simp add: linspace_open_def)

lemma linspace_closed_knots: "0 < N \<Longrightarrow> linspace_closed (real (N - 1)) N = map real [0..<N]"
  by (cases "N = 1") (auto simp: linspace_closed_def)

lemma py_nth_nat: "py_nth xs (int k) = xs ! k"
  by (simp add: py_nth_def)

lemma py_nth_pred: "py_nth xs (int (Suc j) - 1) = xs ! j"
  by (simp add: py_nth_def)

lemma call_linear_at_knot:
  assumes "2 \<le> N" "k < N"
  shows "call_linear (map real [0..<N]) u (real k) = Some (u ! k)"
proof (cases k)
  case 0
  have ss: "searchsorted (map real [0..<N]) (real 0) = 0"
    by (rule searchsorted_knots) simp
  have clip: "np_clip (int 0) 1 (int (length (map real [0..<N])) - 1) = int (Suc 0)"
    using assms by (simp add: np_clip_def)
  have x0: "map real [0..<N] ! 0 = real 0" and x1: "map real [0..<N] ! Suc 0 = real (Suc 0)"
    using assms by (simp_all del: of_nat_Suc)
  show ?thesis
    unfolding 0 call_linear_def Let_def ss clip py_nth_nat py_nth_pred x0 x1
    by (simp add: np_divide_def)
next
  case (Suc j)
  have ss: "searchsorted (map real [0..<N]) (real (Suc j)) = Suc j"
    using assms Suc by (intro searchsorted_knots) simp
  have clip: "np_clip (int (Suc j)) 1 (int (length (map real [0..<N])) - 1) = int (Suc j)"
    using assms Suc by (simp add: np_clip_def)
  have xj: "map real [0..<N] ! j = real j" and xs: "map real [0..<N] ! Suc j = real (Suc j)"
    using assms Suc by (simp_all del: of_nat_Suc)
  show ?thesis
    unfolding Suc call_linear_def Let_def ss clip py_nth_nat py_nth_pred xj xs
    by (simp add: np_divide_def)
qed

lemma interp1d_knots:
  assumes "2 \<le> N" "length u = N"
  shows "interp1d (map real [0..<N]) u (map real [0..<N]) = Inr (map Some u)"
proof -
  have hdlast: "hd (map real [0..<N]) = 0" "last (map real [0..<N]) = real (N - 1)"
    using assms by (simp_all add: hd_map last_map)
  have bounds: "\<not> list_ex (\<lambda>v. v < hd (map real [0..<N]) \<or> last (map real [0..<N]) < v)
                    (map real [0..<N])"
    unfolding hdlast by (auto simp: list_ex_iff)
  have "map (call_linear (map real [0..<N]) u) (map real [0..<N]) = map Some u"
  proof (rule nth_equalityI)
    show "length (map (call_linear (map real [0..<N]) u) (map real [0..<N])) = length (map Some u)"
      using assms by simp
  next
    fix k assume "k < length (map (call_linear (map real [0..<N]) u) (map real [0..<N]))"
    then have k: "k < N" by simp
    show "map (call_linear (map real [0..<N]) u) (map real [0..<N]) ! k = map Some u ! k"
      using call_linear_at_knot[OF assms(1) k, of u] k assms by simp
  qed
  then show ?thesis
    using bounds by (simp only: interp1d_def if_False)
qed

lemma dlsim_knots:
  assumes "2 \<le> N" "length u = N"
  shows "dlsim ss u (Some (map real [0..<N]))
           = Inr (dlsim_out ss (replicate (length (ss_A ss)) (Some 0)) (map Some u))"
proof -
  have ne: "map real [0..<N] \<noteq> []" using assms by simp
  have lst: "last (map real [0..<N]) = real (N - 1)"
    using assms by (simp add: last_map)
  have samples: "\<lfloor>real (N - 1) / 1\<rfloor> + 1 = int N"
    using assms by simp
  have tout: "linspace_closed (real (N - 1)) (nat (int N)) = map real [0..<N]"
    using assms linspace_closed_knots[of N] by simp
  have pos: "\<not> int N < 0" "int N \<noteq> 0" using assms by simp_all
  show ?thesis
    unfolding dlsim_def option.case if_not_P[OF ne] lst samples sum.case prod.case
      if_not_P[OF pos(1)] if_not_P[OF pos(2)] tout interp1d_knots[OF assms]
    by (rule refl)
qed

text \<open>With a single knot the interpolated input, and with it the output, is not a number.\<close>

lemma fadd_None_right: "fadd a None = None"
  by (cases a) simp_all

lemma fmul_None_right: "fmul a None = None"
  by (cases a) simp_all

lemma call_linear_single_knot: "call_linear [x0] [y0] v = None"
  by (simp add: call_linear_def Let_def np_clip_def py_nth_def np_divide_def)

lemma dlsim_single_knot: "dlsim ss [y0] (Some [0]) = Inr [None]"
  by (simp add: dlsim_def linspace_closed_def interp1d_def call_linear_single_knot
      fadd_None_right fmul_None_right)

lemma dimpulse_length_one:
  "tf2ss num den = Inr ss \<Longrightarrow> dimpulse num den 1 = Inr [None]"
  by (simp add: dimpulse_def linspace_open_def np_zeros_def dlsim_single_knot)

lemma impulse_response_length_one: "impulse_response (ARMA p t s) 1 = Inr [None]"
proof -
  obtain ss where "tf2ss (ma_poly (ARMA p t s)) (ar_poly (ARMA p t s)) = Inr ss"
    using tf2ss_ARMA by blast
  then show ?thesis
    by (simp add: impulse_response_def dimpulse_length_one)
qed

text \<open>From two samples on, the response of the AR(1) system is the sequence of the powers.\<close>

lemma dlsim_out_ar1:
  "dlsim_out \<lparr>ss_A = [[x]], ss_B = [1], ss_C = [x], ss_D = 1\<rparr> [Some y] (map Some (replicate k 0))
     = map (\<lambda>j. Some (x ^ Suc j * (y::real))) [0..<k]"
proof (induction k arbitrary: y)
  case 0
  show ?case by simp
next
  case (Suc k)
  have "map (\<lambda>j. Some (x ^ Suc j * y)) [0..<Suc k]
          = Some (x * y) # map (\<lambda>j. Some (x ^ Suc j * (x * y))) [0..<k]"
    by (simp only: map_upt_Suc) (simp add: power_commutes mult.assoc)
  then show ?case
    using Suc.IH[of "x * y"] by (simp add: fdot_def del: upt_Suc power_Suc)
qed

lemma impulse_response_ar1:
  assumes "2 \<le> n"
  shows "impulse_response (ARMA (Scalar x) (Scalar 0) s) n
           = Inr (map (\<lambda>j. Some (x ^ j)) [0..<nat n])"
proof -
  obtain k where k: "nat n = Suc k" using assms by (cases "nat n") auto
  have n: "0 < n" "\<not> n < 0" using assms by simp_all
  have u: "(np_zeros (length (map real [0..<nat n])))[0 := 1] = (1::real) # replicate k 0"
    by (simp add: np_zeros_def k del: upt_Suc)
  have len: "length ((1::real) # replicate k 0) = nat n" by (simp add: k)
  have two: "2 \<le> nat n" using assms by simp
  have pw: "map (\<lambda>j. Some (x ^ j)) [0..<Suc k] = Some 1 # map (\<lambda>j. Some (x ^ Suc j * 1)) [0..<k]"
    by (simp only: map_upt_Suc) simp
  have out: "dlsim_out \<lparr>ss_A = [[x]], ss_B = [1], ss_C = [x], ss_D = 1\<rparr> [Some 0]
               (map Some ((1::real) # replicate k 0))
             = map (\<lambda>j. Some (x ^ j)) [0..<Suc k]"
    using dlsim_out_ar1[of x 1 k] by (simp add: pw fdot_def del: upt_Suc power_Suc)
  have "dimpulse [1, 0] [1, - x] n = Inr (map (\<lambda>j. Some (x ^ j)) [0..<nat n])"
    unfolding dimpulse_def tf2ss_ar1 sum.case if_not_P[OF n(2)] Let_def
      linspace_open_knots[OF n(1)] u
    using dlsim_knots[OF two len, of "\<lparr>ss_A = [[x]], ss_B = [1], ss_C = [x], ss_D = 1\<rparr>"] out
    by (simp add: k np_zeros_def del: upt_Suc)
  then show ?thesis
    by (simp add: impulse_response_def ma_poly_ARMA ar_poly_ARMA)
qed

lemma powers_of_zero: "map (\<lambda>j. Some ((0::real) ^ j)) [0..<Suc k] = Some 1 # replicate k (Some 0)"
  by (simp only: map_upt_Suc) (simp add: map_replicate_const)

lemma impulse_response_from_length_two:
  assumes "2 \<le> n"
  shows "impulse_response (ARMA (Scalar 0) (Scalar 0) 1) n
           = Inr (Some 1 # replicate (nat n - 1) (Some 0))
       \<and> impulse_response (ARMA (Scalar (9/10)) (Scalar 0) 1) 5
           = Inr [Some 1, Some (9/10), Some (81/100), Some (729/1000), Some (6561/10000)]
       \<and> impulse_response (ARMA (Scalar x) (Scalar 0) 1) n
           = Inr (map (\<lambda>j. Some (x ^ j)) [0..<nat n])"
proof -
  obtain k where k: "nat n = Suc k" using assms by (cases "nat n") auto
  have white: "impulse_response (ARMA (Scalar 0) (Scalar 0) 1) n
                 = Inr (Some 1 # replicate (nat n - 1) (Some 0))"
  proof -
    have "impulse_response (ARMA (Scalar 0) (Scalar 0) 1) n
            = Inr (map (\<lambda>j. Some (0 ^ j)) [0..<Suc k])"
      using impulse_response_ar1[OF assms, of 0 1] by (simp only: k)
    then show ?thesis
      by (simp only: powers_of_zero k diff_Suc_1)
  qed
  have five: "impulse_response (ARMA (Scalar (9/10)) (Scalar 0) 1) 5
           = Inr [Some 1, Some (9/10), Some (81/100), Some (729/1000), Some (6561/10000)]"
    using impulse_response_ar1[of 5 "9/10" 1]
    by (simp add: upt_conv_Cons power_divide eval_nat_numeral)
  show ?thesis
    using white five impulse_response_ar1[OF assms, of x 1] by simp
qed

text \<open>
  C6. The white-noise model \<open>phi=0, theta=0, sigma=1\<close> should have the impulse response
  \<open>[1, 0, 0, ...]\<close> and the AR(1) model \<open>phi=0.9, theta=0, sigma=1\<close> the response
  \<open>psi[j] = phi^j\<close>, and the docstring of \<open>impulse_response\<close> takes \<open>psi[0]\<close> as unity. From
  length 2 the code does this (\<open>impulse_response_from_length_two\<close>). For length 1 it does
  not: the single sample it returns is nan, for both models.
\<close>

theorem impulse_response_length_one_nan:
  "impulse_response (ARMA (Scalar 0) (Scalar 0) 1) 1 = Inr [None]
   \<and> impulse_response (ARMA (Scalar (9/10)) (Scalar 0) 1) 1 = Inr [None]"
  by (simp add: impulse_response_length_one)

section \<open>Properties of the spectral density\<close>

lemma length_linspace_open: "length (linspace_open stop N) = N"
  by (simp add: linspace_open_def)

lemma freqz_Count:
  "0 \<le> N \<Longrightarrow> \<exists>w h. freqz b a (Count N) whole = Inr (w, h) \<and> length w = nat N \<and> length h = nat N"
  by (simp add: freqz_def Let_def length_linspace_open)






lemma spectral_density_Count:
  "0 \<le> N \<Longrightarrow> \<exists>w spect. spectral_density m two_pi (Count N) = Inr (w, spect)
       \<and> length w = nat N \<and> length spect = nat N"
  using freqz_Count[of N "ma_poly m" "ar_poly m" two_pi]
  by (auto simp: spectral_density_def)






section \<open>Properties of the autocovariance\<close>

lemma ifft_nonempty:
  "a \<noteq> [] \<Longrightarrow> \<exists>acov. ifft a = Inr acov \<and> length acov = length a"
  by (cases "those a") (simp_all add: ifft_def Let_def)

text \<open>The spectral density is always taken at 1200 points, so the transform never fails.\<close>

lemma autocovariance_Inr:
  "\<exists>w spect acov. spectral_density m True (Count 1200) = Inr (w, spect) \<and> length spect = 1200
      \<and> ifft spect = Inr acov \<and> length acov = 1200
      \<and> autocovariance m n = Inr (py_slice_upto (map (map_option Re) acov) n)"
proof -
  obtain w spect where sd: "spectral_density m True (Count 1200) = Inr (w, spect)"
    and len: "length spect = 1200"
    using spectral_density_Count[of 1200 m True] by auto
  have "spect \<noteq> []" using len by auto
  then obtain acov where ac: "ifft spect = Inr acov" "length acov = length spect"
    using ifft_nonempty by blast
  show ?thesis
    using sd len ac by (simp add: autocovariance_def)
qed

text \<open>
  C3, as the code has it. For a positive \<open>num_lags\<close>, \<open>autocovariance\<close> returns the first
  \<open>num_lags\<close> entries of the real part of the inverse discrete Fourier transform of the
  spectral density taken with \<open>two_pi=True\<close> at 1200 points; these are
  \<open>min(num_lags, 1200)\<close> values, so exactly \<open>num_lags\<close> of them only up to 1200.
\<close>

theorem autocovariance_truncated_ifft:
  assumes "0 < num_lags"
  shows "\<exists>w spect acov. spectral_density m True (Count 1200) = Inr (w, spect)
      \<and> ifft spect = Inr acov
      \<and> autocovariance m num_lags = Inr (take (nat num_lags) (map (map_option Re) acov))
      \<and> length (take (nat num_lags) (map (map_option Re) acov)) = min (nat num_lags) 1200"
proof -
  obtain w spect acov where "spectral_density m True (Count 1200) = Inr (w, spect)"
    "ifft spect = Inr acov" "length acov = 1200"
    "autocovariance m num_lags = Inr (py_slice_upto (map (map_option Re) acov) num_lags)"
    using autocovariance_Inr[of m num_lags] by blast
  then show ?thesis
    using assms by (auto simp: py_slice_upto_def)
qed

theorem autocovariance_truncated_ifft_witness:
  "(0::int) < 3
   \<and> (\<exists>w spect acov.
         spectral_density (ARMA (Scalar 0) (Scalar 0) 2) True (Count 1200) = Inr (w, spect)
       \<and> ifft spect = Inr acov
       \<and> autocovariance (ARMA (Scalar 0) (Scalar 0) 2) 3
           = Inr (take (nat 3) (map (map_option Re) acov))
       \<and> length (take (nat 3) (map (map_option Re) acov)) = min (nat 3) 1200)"
  using autocovariance_truncated_ifft[of 3 "ARMA (Scalar 0) (Scalar 0) 2"] by simp

text \<open>C3 as stated fails above the resolution: asked for 1201 values, the code returns 1200.\<close>

theorem autocovariance_length_counterexample:
  "map_sum id length (autocovariance (ARMA (Scalar 0) (Scalar 0) 1) 1201) = Inr 1200"
proof -
  obtain w spect acov where "length acov = 1200"
    "autocovariance (ARMA (Scalar 0) (Scalar 0) 1) 1201
       = Inr (py_slice_upto (map (map_option Re) acov) 1201)"
    using autocovariance_Inr[of "ARMA (Scalar 0) (Scalar 0) 1" 1201] by blast
  then show ?thesis
    by (simp add: py_slice_upto_def)
qed

section \<open>Arguments that are not positive\<close>

lemma impulse_response_nonpositive:
  assumes "n \<le> 0"
  shows "impulse_response (ARMA p t s) n = Inl (if n = 0 then IndexError else ValueError)"
proof -
  obtain ss where "tf2ss (ma_poly (ARMA p t s)) (ar_poly (ARMA p t s)) = Inr ss"
    using tf2ss_ARMA by blast
  then show ?thesis
    using assms by (simp add: impulse_response_def dimpulse_def np_zeros_def linspace_open_def)
qed

lemma simulation_nonpositive:
  assumes "n \<le> 0"
  shows "simulation (ARMA p t s) n g = (Inl (if n = 0 then IndexError else ValueError), g)"
proof -
  obtain ss where "tf2ss (ma_poly (ARMA p t s)) (ar_poly (ARMA p t s)) = Inr ss"
    using tf2ss_ARMA by blast
  then show ?thesis
    using assms by (simp add: simulation_def randn_def dlsim_def)
qed

lemma spectral_density_nonpositive:
  assumes "n \<le> 0"
  shows "spectral_density m two_pi (Count n) = (if n = 0 then Inr ([], []) else Inl ValueError)"
  using assms by (simp add: spectral_density_def freqz_def linspace_open_def)

text \<open>
  C7, as the code has it. The module checks none of its arguments and has no error of its
  own. With a length that is not positive, \<open>impulse_response\<close> and \<open>simulation\<close> fail inside
  the library, with \<open>IndexError\<close> for 0 and \<open>ValueError\<close> for a negative number, and return
  nothing (\<open>simulation\<close> leaves the random state as it was). \<open>spectral_density\<close> fails with
  \<open>ValueError\<close> for a negative resolution and returns empty arrays for the resolution 0.
  \<open>autocovariance\<close> never fails: for 0 it returns the empty sequence, and for a negative
  \<open>n\<close> the slice \<open>acov[:n]\<close> returns the first \<open>1200 + n\<close> entries (none if that is negative)
  of the real part of the inverse transform of the default spectral density.
\<close>

theorem nonpositive_arguments:
  assumes "n \<le> 0"
  shows "impulse_response (ARMA p t s) n = Inl (if n = 0 then IndexError else ValueError)
     \<and> simulation (ARMA p t s) n g = (Inl (if n = 0 then IndexError else ValueError), g)
     \<and> spectral_density (ARMA p t s) two_pi (Count n)
         = (if n = 0 then Inr ([], []) else Inl ValueError)
     \<and> (\<exists>w spect acov.
           spectral_density (ARMA p t s) True (Count 1200) = Inr (w, spect)
         \<and> ifft spect = Inr acov
         \<and> autocovariance (ARMA p t s) n
             = Inr (if n = 0 then [] else take (nat (1200 + n)) (map (map_option Re) acov))
         \<and> length (take (nat (1200 + n)) (map (map_option Re) acov)) = nat (1200 + n))"
proof -
  obtain w spect acov where sd: "spectral_density (ARMA p t s) True (Count 1200) = Inr (w, spect)"
    and ac: "ifft spect = Inr acov" and len: "length acov = 1200"
    and av: "autocovariance (ARMA p t s) n = Inr (py_slice_upto (map (map_option Re) acov) n)"
    using autocovariance_Inr[of "ARMA p t s" n] by blast
  have slice: "py_slice_upto (map (map_option Re) acov) n
                 = (if n = 0 then [] else take (nat (1200 + n)) (map (map_option Re) acov))"
    using assms len by (simp add: py_slice_upto_def)
  have tl: "length (take (nat (1200 + n)) (map (map_option Re) acov)) = nat (1200 + n)"
    using assms len by simp
  have "\<exists>w spect acov.
           spectral_density (ARMA p t s) True (Count 1200) = Inr (w, spect)
         \<and> ifft spect = Inr acov
         \<and> autocovariance (ARMA p t s) n
             = Inr (if n = 0 then [] else take (nat (1200 + n)) (map (map_option Re) acov))
         \<and> length (take (nat (1200 + n)) (map (map_option Re) acov)) = nat (1200 + n)"
    using sd ac av tl unfolding slice by blast
  then show ?thesis
    using impulse_response_nonpositive[OF assms, of p t s]
      simulation_nonpositive[OF assms, of p t s g]
      spectral_density_nonpositive[OF assms, of "ARMA p t s" two_pi]
    by blast
qed

theorem nonpositive_arguments_witness:
  "(-2::int) \<le> 0
   \<and> impulse_response (ARMA (Scalar (1/2)) (Scalar 0) 1) (-2) = Inl ValueError
   \<and> simulation (ARMA (Scalar (1/2)) (Scalar 0) 1) (-2) \<lparr>np_random = \<lambda>i. real i\<rparr>
        = (Inl ValueError, \<lparr>np_random = \<lambda>i. real i\<rparr>)
   \<and> spectral_density (ARMA (Scalar (1/2)) (Scalar 0) 1) True (Count (-2)) = Inl ValueError
   \<and> (\<exists>w spect acov.
           spectral_density (ARMA (Scalar (1/2)) (Scalar 0) 1) True (Count 1200) = Inr (w, spect)
         \<and> ifft spect = Inr acov
         \<and> autocovariance (ARMA (Scalar (1/2)) (Scalar 0) 1) (-2)
             = Inr (take 1198 (map (map_option Re) acov))
         \<and> length (take 1198 (map (map_option Re) acov)) = 1198)"
  using nonpositive_arguments[of "-2" "Scalar (1/2)" "Scalar 0" 1 "\<lparr>np_random = \<lambda>i. real i\<rparr>" True]
  by simp

text \<open>C7 as stated fails: \<open>autocovariance(0)\<close> raises nothing and returns the empty sequence.\<close>

theorem autocovariance_zero_counterexample:
  "autocovariance (ARMA (Scalar 0) (Scalar 0) 1) 0 = Inr []"
proof -
  obtain w spect acov where
    "autocovariance (ARMA (Scalar 0) (Scalar 0) 1) 0
       = Inr (py_slice_upto (map (map_option Re) acov) 0)"
    using autocovariance_Inr[of "ARMA (Scalar 0) (Scalar 0) 1" 0] by blast
  then show ?thesis
    by (simp add: py_slice_upto_def)
qed

text \<open>
  C8, as the code has it. With length 0 neither \<open>impulse_response\<close> nor \<open>simulation\<close> returns
  an empty sequence: both fail with the \<open>IndexError\<close> of the library, and \<open>simulation\<close>
  leaves the random state as it was.
\<close>

theorem length_zero_fails:
  "impulse_response (ARMA p t (s::real)) 0 = Inl IndexError
   \<and> simulation (ARMA p t s) 0 g = (Inl IndexError, g)"
  using impulse_response_nonpositive[of 0 p t s] simulation_nonpositive[of 0 p t s g] by simp

text \<open>C8 as stated fails on the AR(1) model of the specification's own example.\<close>

theorem length_zero_counterexample:
  "impulse_response (ARMA (Scalar (9/10)) (Scalar 0) (1::real)) 0 = Inl IndexError"
  by (simp add: impulse_response_def dimpulse_def np_zeros_def linspace_open_def tf2ss_ar1
      ma_poly_ARMA ar_poly_ARMA)

section \<open>Properties of the simulation\<close>

lemma randn_nonneg:
  "0 \<le> n \<Longrightarrow> randn n G = (Inr (map (np_random G) [0..<nat n]),
                              G\<lparr>np_random := \<lambda>i. np_random G (nat n + i)\<rparr>)"
  by (simp add: randn_def)

lemma simulation_nonneg:
  assumes "0 \<le> n"
  shows "simulation m n G =
     (case tf2ss (ma_poly m) (ar_poly m) of
        Inl e \<Rightarrow> Inl e
      | Inr ss \<Rightarrow> dlsim ss (map (\<lambda>x. x * sigma m) (map (np_random G) [0..<nat n])) None,
      G\<lparr>np_random := \<lambda>i. np_random G (nat n + i)\<rparr>)"
  using assms by (simp add: simulation_def randn_nonneg Let_def split: sum.splits)

lemma simulation_white_noise_one:
  "simulation (ARMA (Scalar 0) (Scalar 0) 1) 1 G
     = (Inr [Some (np_random G 0)], G\<lparr>np_random := \<lambda>i. np_random G (Suc i)\<rparr>)"
  by (simp add: simulation_def randn_def ma_poly_ARMA ar_poly_ARMA ARMA_fields
      tf2ss_ar1[of 0, simplified] dlsim_def fdot_def)

text \<open>
  C4, as the code has it. \<open>simulation\<close> takes no random source. It draws \<open>ts_length\<close>
  variates from the global random state and leaves that state advanced by as many draws;
  its output is determined by the model, the length and those draws, so two calls with the
  same model and length give the same output when the global state holds the same next
  \<open>ts_length\<close> draws at both calls.
\<close>

theorem simulation_reads_global_state:
  assumes "0 \<le> n"
  shows "snd (simulation m n G) = G\<lparr>np_random := \<lambda>i. np_random G (nat n + i)\<rparr>
       \<and> ((\<forall>i<nat n. np_random G i = np_random G' i)
            \<longrightarrow> fst (simulation m n G) = fst (simulation m n G'))"
proof -
  have "fst (simulation m n G) = fst (simulation m n G')"
    if "\<forall>i<nat n. np_random G i = np_random G' i"
  proof -
    have "map (np_random G) [0..<nat n] = map (np_random G') [0..<nat n]"
      using that by simp
    then show ?thesis
      by (simp only: simulation_nonneg[OF assms] fst_conv)
  qed
  moreover have "snd (simulation m n G) = G\<lparr>np_random := \<lambda>i. np_random G (nat n + i)\<rparr>"
    by (simp only: simulation_nonneg[OF assms] snd_conv)
  ultimately show ?thesis
    by blast
qed

theorem simulation_reads_global_state_witness:
  "(0::int) \<le> 2
   \<and> snd (simulation (ARMA (Scalar 0) (Scalar 0) 1) 2 \<lparr>np_random = \<lambda>i. real i\<rparr>)
       = \<lparr>np_random = \<lambda>i. real (nat 2 + i)\<rparr>
   \<and> fst (simulation (ARMA (Scalar 0) (Scalar 0) 1) 2 \<lparr>np_random = \<lambda>i. real i\<rparr>)
       = fst (simulation (ARMA (Scalar 0) (Scalar 0) 1) 2
               \<lparr>np_random = \<lambda>i. if i < 2 then real i else 0\<rparr>)"
  using simulation_reads_global_state[of 2 "ARMA (Scalar 0) (Scalar 0) 1"
      "\<lparr>np_random = \<lambda>i. real i\<rparr>" "\<lparr>np_random = \<lambda>i. if i < 2 then real i else 0\<rparr>"]
  by simp

text \<open>
  C4 as stated fails: the caller supplies the object and the length and nothing else, and
  with both the same the output still differs with the global random state; and a call
  does not leave the global state as it found it.
\<close>

theorem simulation_global_state_counterexample:
  "fst (simulation (ARMA (Scalar 0) (Scalar 0) 1) 1 \<lparr>np_random = \<lambda>i. 0\<rparr>)
     \<noteq> fst (simulation (ARMA (Scalar 0) (Scalar 0) 1) 1 \<lparr>np_random = \<lambda>i. 1\<rparr>)
   \<and> snd (simulation (ARMA (Scalar 0) (Scalar 0) 1) 1 \<lparr>np_random = \<lambda>i. real i\<rparr>)
     \<noteq> \<lparr>np_random = \<lambda>i. real i\<rparr>"
proof -
  have "(\<lambda>i. real (Suc i)) \<noteq> (\<lambda>i. real i)"
  proof
    assume "(\<lambda>i. real (Suc i)) = (\<lambda>i. real i)"
    then have "real (Suc 0) = real 0" by (rule fun_cong)
    then show False by simp
  qed
  then show ?thesis
    by (simp add: simulation_white_noise_one)
qed

end
